theory Spec2Isabelle
  imports Main "HOL-Library.Word"
begin

section \<open>Data model\<close>

text \<open>
  A \<open>float64\<close> is carried around by its IEEE-754 bit pattern: the program parses prices and
  hands them to the gauge, it never computes with them. A \<open>Time\<close> is an instant in
  nanoseconds since the Unix epoch, a duration a number of nanoseconds. Go's \<open>int\<close> is taken
  to be 64 bits wide, so \<open>int(idImpianto)\<close> is the identity on what \<open>ParseInt\<close> returns.
\<close>

type_synonym float64 = "64 word"
type_synonym Time = int
type_synonym Duration = int

record Record =
  IDImpianto :: int
  Carburante :: string
  Prezzo :: float64
  SelfService :: bool
  DataComunicazione :: Time

record CacheEntry =
  Records :: "Record list"
  Ts :: Time

text \<open>
  The map holds pointers to entries; an entry is only ever reached through the map, so the
  map from keys to entry values stands for both. The mutex is left out: the model is
  sequential.
\<close>

record Cache =
  entries :: "string \<rightharpoonup> CacheEntry"
  TTL :: Duration

section \<open>The record cache\<close>

text \<open>\<open>time.Since\<close> is \<open>Now().Sub(t)\<close>, which saturates at the ends of the int64 range.\<close>

definition maxDuration :: Duration where
  "maxDuration = 2 ^ 63 - 1"

definition minDuration :: Duration where
  "minDuration = - (2 ^ 63)"

definition time_Since :: "Time \<Rightarrow> Time \<Rightarrow> Duration" where
  "time_Since now t = max minDuration (min maxDuration (now - t))"

text \<open>
  \<open>Get\<close> returns the slice and the found flag; a nil slice is the empty list. The first
  argument is the reading of the clock when the call is made.
\<close>

definition Get :: "Time \<Rightarrow> string \<Rightarrow> Cache \<Rightarrow> Record list \<times> bool" where
  "Get now k c =
     (case entries c k of
        Some e \<Rightarrow> if time_Since now (Ts e) > TTL c then ([], False) else (Records e, True)
      | None \<Rightarrow> ([], False))"

text \<open>
  \<open>Put\<close> appends through the pointer when the key is present. When it is absent the fresh
  entry is assigned to the local variable \<open>entry\<close> and to nothing else: the function returns
  with the map as it was.
\<close>

definition Put :: "Time \<Rightarrow> string \<Rightarrow> Record \<Rightarrow> Cache \<Rightarrow> Cache" where
  "Put now k v c =
     (case entries c k of
        Some entry \<Rightarrow> c\<lparr>entries := (entries c)(k \<mapsto> entry\<lparr>Records := Records entry @ [v]\<rparr>)\<rparr>
      | None \<Rightarrow> (let entry = \<lparr>Records = [v], Ts = now\<rparr> in c))"

definition NewCache :: "Duration \<Rightarrow> Cache" where
  "NewCache ttl = \<lparr>entries = Map.empty, TTL = ttl\<rparr>"

text \<open>
  A client of the cache: a finite sequence of calls, each with the clock reading at which it
  is made. Running it gives the final cache and the results of the \<open>Get\<close> calls in order.
\<close>

datatype cache_call = CallPut Time string Record | CallGet Time string

fun run_calls :: "Cache \<Rightarrow> cache_call list \<Rightarrow> Cache \<times> (Record list \<times> bool) list" where
  "run_calls c [] = (c, [])"
| "run_calls c (CallPut now k v # calls) = run_calls (Put now k v c) calls"
| "run_calls c (CallGet now k # calls) =
     (let (c', rs) = run_calls c calls in (c', Get now k c # rs))"

fun is_get :: "cache_call \<Rightarrow> bool" where
  "is_get (CallGet now k) = True"
| "is_get (CallPut now k v) = False"

section \<open>Library functions the parsers call\<close>

subsection \<open>strconv\<close>

datatype num_error = ErrSyntax | ErrRange

definition digit_val :: "char \<Rightarrow> nat option" where
  "digit_val c =
     (let n = (of_char c :: nat) in if 48 \<le> n \<and> n \<le> 57 then Some (n - 48) else None)"

text \<open>
  \<open>strconv.ParseUint(s, 10, 64)\<close>: in base 10 every byte must be a decimal digit (no
  underscores, no prefix), and the value must fit 64 bits.
\<close>

definition maxUint64 :: nat where
  "maxUint64 = 18446744073709551615"

fun ParseUint_loop :: "string \<Rightarrow> nat \<Rightarrow> num_error + nat" where
  "ParseUint_loop [] n = Inr n"
| "ParseUint_loop (c # cs) n =
     (case digit_val c of
        None \<Rightarrow> Inl ErrSyntax
      | Some d \<Rightarrow>
          if n \<ge> maxUint64 div 10 + 1 then Inl ErrRange
          else if n * 10 + d > maxUint64 then Inl ErrRange
          else ParseUint_loop cs (n * 10 + d))"

definition ParseUint :: "string \<Rightarrow> num_error + nat" where
  "ParseUint s = (if s = [] then Inl ErrSyntax else ParseUint_loop s 0)"

text \<open>
  \<open>strconv.ParseInt(s, 10, 64)\<close>: an optional sign, then \<open>ParseUint\<close>, then the range of
  int64. A range error of \<open>ParseUint\<close> stays a range error.
\<close>

definition ParseInt :: "string \<Rightarrow> num_error + int" where
  "ParseInt s =
     (if s = [] then Inl ErrSyntax
      else
        let neg = (hd s = CHR ''-'');
            s' = (if hd s = CHR ''+'' \<or> hd s = CHR ''-'' then tl s else s)
        in case ParseUint s' of
             Inl e \<Rightarrow> Inl e
           | Inr un \<Rightarrow>
               if \<not> neg \<and> un \<ge> 9223372036854775808 then Inl ErrRange
               else if neg \<and> un > 9223372036854775808 then Inl ErrRange
               else Inr (if neg then - int un else int un))"

definition ParseBool :: "string \<Rightarrow> bool option" where
  "ParseBool str =
     (if str \<in> set [''1'', ''t'', ''T'', ''TRUE'', ''true'', ''True''] then Some True
      else if str \<in> set [''0'', ''f'', ''F'', ''FALSE'', ''false'', ''False''] then Some False
      else None)"

definition FormatBool :: "bool \<Rightarrow> string" where
  "FormatBool b = (if b then ''true'' else ''false'')"

fun formatNat :: "nat \<Rightarrow> string" where
  "formatNat n =
     (if n < 10 then [''0123456789'' ! n]
      else formatNat (n div 10) @ [''0123456789'' ! (n mod 10)])"

text \<open>\<open>strconv.FormatInt(i, 10)\<close>, which is also what the verb \<open>%d\<close> prints.\<close>

definition FormatInt :: "int \<Rightarrow> string" where
  "FormatInt i = (if i < 0 then CHR ''-'' # formatNat (nat (- i)) else formatNat (nat i))"

subsection \<open>strings\<close>

text \<open>\<open>strings.Split\<close> with a one-byte separator: one more piece than separators.\<close>

fun strings_Split :: "string \<Rightarrow> char \<Rightarrow> string list" where
  "strings_Split [] sep = [[]]"
| "strings_Split (c # cs) sep =
     (if c = sep then [] # strings_Split cs sep
      else (case strings_Split cs sep of
              [] \<Rightarrow> [[c]]
            | piece # pieces \<Rightarrow> (c # piece) # pieces))"

fun strings_Join :: "string list \<Rightarrow> string \<Rightarrow> string" where
  "strings_Join [] sep = []"
| "strings_Join [x] sep = x"
| "strings_Join (x # y # ys) sep = x @ sep @ strings_Join (y # ys) sep"

subsection \<open>time\<close>

text \<open>\<open>Time.Unix\<close>: whole seconds since the epoch, rounded down.\<close>

definition Unix :: "Time \<Rightarrow> int" where
  "Unix t = t div 1000000000"

section \<open>Errors, log lines and responses\<close>

text \<open>
  One constructor for each place where the program builds an error, and one for the
  run-time panic of an index out of range. \<open>FailedToParseRecord\<close> wraps the error of
  \<open>parseRecord\<close>, as \<open>%w\<close> does.
\<close>

datatype csv_error = ErrFieldCount | ErrParse

datatype error =
    FailedToFetchPrices
  | FailedToReadLine
  | FailedToReadCSV csv_error
  | ExpectedFiveFields nat
  | IDImpiantoNotNumeric num_error
  | PrezzoNotFloat
  | SelfServiceNotBool
  | DataComunicazioneNotTime
  | FailedToParseRecord error
  | FailedToFetchStations
  | MalformedLine nat "string list"
  | FailedToScanStations
  | PanicIndexOutOfRange

datatype log_msg =
    UpdatingStations
  | WarnEmptyLine
  | WarnDuplicate string int
  | LogFailedPrices error
  | LogFailedStations error
  | Sleeping

text \<open>\<open>http.Get\<close> either fails or gives a body to read.\<close>

datatype 'b response = FetchFailed | Body 'b

section \<open>The price feed\<close>

text \<open>
  The body of the price feed, as the two readers see it: how many of the leading lines
  \<open>ReadLine\<close> can deliver, and then what the tokenizer of \<open>csv.Reader\<close> finds in the rest of
  the stream, record by record, before the reader's own check of the field count. A
  \<open>RawFailure\<close> is any failure of the tokenizer or of the stream under it.
\<close>

datatype csv_raw = RawRecord "string list" | RawFailure

record prices_body =
  header_lines :: nat
  csv_records :: "csv_raw list"

text \<open>One \<open>Read\<close> of a reader with \<open>FieldsPerRecord = n > 0\<close>, on the record it finds.\<close>

fun csv_Read :: "nat \<Rightarrow> csv_raw \<Rightarrow> csv_error + string list" where
  "csv_Read n RawFailure = Inl ErrParse"
| "csv_Read n (RawRecord items) =
     (if 0 < n \<and> length items \<noteq> n then Inl ErrFieldCount else Inr items)"

text \<open>
  \<open>strconv.ParseFloat\<close> and \<open>time.Parse\<close> with the layout \<open>2/1/2006 15:04:05\<close> are
  parameters: \<open>parseFloat\<close> and \<open>timeParse\<close> give \<open>None\<close> where the library gives an error.
\<close>

definition parseRecord ::
  "(string \<Rightarrow> float64 option) \<Rightarrow> (string \<Rightarrow> Time option) \<Rightarrow> string list \<Rightarrow> error + Record" where
  "parseRecord parseFloat timeParse items =
     (if length items \<noteq> 5 then Inl (ExpectedFiveFields (length items))
      else
        case ParseInt (items ! 0) of
          Inl e \<Rightarrow> Inl (IDImpiantoNotNumeric e)
        | Inr idImpianto \<Rightarrow>
            (case parseFloat (items ! 2) of
               None \<Rightarrow> Inl PrezzoNotFloat
             | Some prezzo \<Rightarrow>
                 (case ParseBool (items ! 3) of
                    None \<Rightarrow> Inl SelfServiceNotBool
                  | Some selfService \<Rightarrow>
                      (case timeParse (items ! 4) of
                         None \<Rightarrow> Inl DataComunicazioneNotTime
                       | Some t \<Rightarrow>
                           Inr \<lparr>IDImpianto = idImpianto, Carburante = items ! 1,
                                Prezzo = prezzo, SelfService = selfService,
                                DataComunicazione = t\<rparr>))))"

definition cacheKey :: "Record \<Rightarrow> string" where
  "cacheKey r = FormatInt (IDImpianto r) @ ''-'' @ FormatInt (Unix (DataComunicazione r))"

text \<open>
  The reading loop of \<open>refreshRecords\<close>. The end of the list is \<open>io.EOF\<close>. \<open>clock i\<close> is the
  reading of the clock at the \<open>Put\<close> of the record with index \<open>i\<close>.
\<close>

fun readRecords ::
  "(string \<Rightarrow> float64 option) \<Rightarrow> (string \<Rightarrow> Time option) \<Rightarrow> (nat \<Rightarrow> Time) \<Rightarrow>
   csv_raw list \<Rightarrow> Record list \<Rightarrow> Cache \<Rightarrow> (error + Record list) \<times> Cache" where
  "readRecords parseFloat timeParse clock [] records cache = (Inr records, cache)"
| "readRecords parseFloat timeParse clock (raw # rest) records cache =
     (case csv_Read 5 raw of
        Inl e \<Rightarrow> (Inl (FailedToReadCSV e), cache)
      | Inr items \<Rightarrow>
          (case parseRecord parseFloat timeParse items of
             Inl e \<Rightarrow> (Inl (FailedToParseRecord e), cache)
           | Inr r \<Rightarrow>
               readRecords parseFloat timeParse clock rest (records @ [r])
                 (Put (clock (length records)) (cacheKey r) r cache)))"

definition refreshRecords ::
  "(string \<Rightarrow> float64 option) \<Rightarrow> (string \<Rightarrow> Time option) \<Rightarrow> (nat \<Rightarrow> Time) \<Rightarrow>
   prices_body response \<Rightarrow> Cache \<Rightarrow> (error + Record list) \<times> Cache" where
  "refreshRecords parseFloat timeParse clock resp cache =
     (case resp of
        FetchFailed \<Rightarrow> (Inl FailedToFetchPrices, cache)
      | Body b \<Rightarrow>
          if header_lines b < 2 then (Inl FailedToReadLine, cache)
          else readRecords parseFloat timeParse clock (csv_records b) [] cache)"

section \<open>The station feed\<close>

record Station =
  ID :: int
  Gestore :: string
  Bandiera :: string
  Tipo :: string
  Nome :: string
  Indirizzo :: string
  Comune :: string
  Provincia :: string
  Lat :: string
  Long :: string

text \<open>
  The body of the station feed, as \<open>bufio.Scanner\<close> delivers it: the lines that \<open>Scan\<close> and
  \<open>Text\<close> yield, and whether \<open>Err\<close> reports a failure once \<open>Scan\<close> has returned false.
\<close>

record stations_body =
  scan_lines :: "string list"
  scan_err :: bool

text \<open>The \<open>switch len(items)\<close> that chooses the address.\<close>

definition address_of :: "string list \<Rightarrow> error + string" where
  "address_of items =
     (if length items = 10 then Inr (items ! 5)
      else if length items = 11 then Inr (strings_Join (take (6 - 5) (drop 5 items)) '' | '')
      else Inl (MalformedLine (length items) items))"

text \<open>
  What the loop body does with a line that is not skipped as the header. The warning about a
  duplicate reads \<open>items[3]\<close> before the field count is looked at, and panics on a line of
  fewer than four fields.
\<close>

definition stationLine ::
  "string \<Rightarrow> (int \<rightharpoonup> Station) \<times> log_msg list \<Rightarrow> (error + (int \<rightharpoonup> Station)) \<times> log_msg list" where
  "stationLine line st =
     (let stationMap = fst st; lg = snd st; items = strings_Split line CHR '';'' in
      if length items = 0 then (Inr stationMap, lg @ [WarnEmptyLine])
      else
        case ParseInt (items ! 0) of
          Inl e \<Rightarrow> (Inl (IDImpiantoNotNumeric e), lg)
        | Inr idImpianto \<Rightarrow>
            if stationMap idImpianto \<noteq> None \<and> length items \<le> 3 then (Inl PanicIndexOutOfRange, lg)
            else
              let lg' = (if stationMap idImpianto \<noteq> None
                         then lg @ [WarnDuplicate (items ! 3) idImpianto] else lg)
              in case address_of items of
                   Inl e \<Rightarrow> (Inl e, lg')
                 | Inr address \<Rightarrow>
                     (Inr (stationMap(idImpianto \<mapsto>
                        \<lparr>ID = idImpianto, Gestore = items ! 1, Bandiera = items ! 2,
                         Tipo = items ! 3, Nome = items ! 4, Indirizzo = address,
                         Comune = items ! 6, Provincia = items ! 7, Lat = items ! 8,
                         Long = items ! 9\<rparr>)), lg'))"

text \<open>
  The scanning loop. \<open>lineno\<close> is passed on as it is: no statement of the loop assigns to it.
\<close>

fun scanLoop ::
  "nat \<Rightarrow> string list \<Rightarrow> (int \<rightharpoonup> Station) \<times> log_msg list \<Rightarrow>
   (error + (int \<rightharpoonup> Station)) \<times> log_msg list" where
  "scanLoop lineno [] st = (Inr (fst st), snd st)"
| "scanLoop lineno (line # rest) st =
     (if lineno = 1 then scanLoop lineno rest st
      else
        case stationLine line st of
          (Inl e, lg) \<Rightarrow> (Inl e, lg)
        | (Inr stationMap, lg) \<Rightarrow> scanLoop lineno rest (stationMap, lg))"

definition updateStations ::
  "stations_body response \<Rightarrow> (error + (int \<rightharpoonup> Station)) \<times> log_msg list" where
  "updateStations resp =
     (case resp of
        FetchFailed \<Rightarrow> (Inl FailedToFetchStations, [UpdatingStations])
      | Body b \<Rightarrow>
          (case scanLoop 1 (scan_lines b) (Map.empty, [UpdatingStations]) of
             (Inl e, lg) \<Rightarrow> (Inl e, lg)
           | (Inr stationMap, lg) \<Rightarrow>
               if scan_err b then (Inl FailedToScanStations, lg) else (Inr stationMap, lg)))"

section \<open>The refresh loop\<close>

text \<open>
  One call \<open>WithLabelValues(...).Set(v)\<close> on the gauge: the eight label values in the order
  of the call, and the value.
\<close>

record gauge_set =
  lbl_IDImpianto :: string
  lbl_Carburante :: string
  lbl_SelfService :: string
  lbl_Nome :: string
  lbl_Tipo :: string
  lbl_Comune :: string
  lbl_Provincia :: string
  lbl_Bandiera :: string
  set_value :: float64

text \<open>The \<open>range\<close> loop over the records; the calls made on the gauge are collected in order.\<close>

fun joinRecords :: "Record list \<Rightarrow> (int \<rightharpoonup> Station) \<Rightarrow> gauge_set list \<Rightarrow> gauge_set list" where
  "joinRecords [] stations calls = calls"
| "joinRecords (r # rest) stations calls =
     (let (nome, tipo, comune, provincia, bandiera) =
            (case stations (IDImpianto r) of
               Some station \<Rightarrow>
                 (Nome station, Tipo station, Comune station, Provincia station, Bandiera station)
             | None \<Rightarrow> ([], [], [], [], []))
      in joinRecords rest stations
           (calls @ [\<lparr>lbl_IDImpianto = FormatInt (IDImpianto r), lbl_Carburante = Carburante r,
                      lbl_SelfService = FormatBool (SelfService r), lbl_Nome = nome,
                      lbl_Tipo = tipo, lbl_Comune = comune, lbl_Provincia = provincia,
                      lbl_Bandiera = bandiera, set_value = Prezzo r\<rparr>]))"

text \<open>
  One turn of the loop in \<open>main\<close>, up to the sleep: the cache afterwards, the calls made on
  the gauge, and the log. The station feed is fetched only when the price feed was read.
\<close>

definition iteration ::
  "(string \<Rightarrow> float64 option) \<Rightarrow> (string \<Rightarrow> Time option) \<Rightarrow> (nat \<Rightarrow> Time) \<Rightarrow>
   prices_body response \<Rightarrow> stations_body response \<Rightarrow> Cache \<Rightarrow>
   Cache \<times> gauge_set list \<times> log_msg list" where
  "iteration parseFloat timeParse clock prices stations cache =
     (case refreshRecords parseFloat timeParse clock prices cache of
        (Inl e, cache') \<Rightarrow> (cache', [], [LogFailedPrices e, Sleeping])
      | (Inr records, cache') \<Rightarrow>
          (case updateStations stations of
             (Inl e, lg) \<Rightarrow> (cache', [], lg @ [LogFailedStations e, Sleeping])
           | (Inr stationMap, lg) \<Rightarrow>
               (cache', joinRecords records stationMap [], lg @ [Sleeping])))"

section \<open>Concrete feeds\<close>

text \<open>
  The two library parsers on the strings that occur in the feeds below, as a table; the
  bit pattern is that of the float64 nearest to 1.899, the instant is 5 March 2024, 8:00:00
  UTC.
\<close>

definition parseFloat_tab :: "string \<Rightarrow> float64 option" where
  "parseFloat_tab s = (if s = ''1.899'' then Some 0x3FFE624DD2F1A9FC else None)"

definition timeParse_tab :: "string \<Rightarrow> Time option" where
  "timeParse_tab s = (if s = ''5/3/2024 8:00:00'' then Some 1709625600000000000 else None)"

definition r1 :: Record where
  "r1 = \<lparr>IDImpianto = 101, Carburante = ''benzina'', Prezzo = 0x3FFE624DD2F1A9FC,
         SelfService = True, DataComunicazione = 1709625600000000000\<rparr>"

definition r2 :: Record where
  "r2 = \<lparr>IDImpianto = 101, Carburante = ''benzina'', Prezzo = 0x3FFC000000000000,
         SelfService = True, DataComunicazione = 1709625600000000000\<rparr>"

definition one_hour :: Duration where
  "one_hour = 3600000000000"

definition prices_one_row :: prices_body where
  "prices_one_row =
     \<lparr>header_lines = 2,
      csv_records = [RawRecord [''101'', ''benzina'', ''1.899'', ''true'', ''5/3/2024 8:00:00'']]\<rparr>"

definition prices_short_row :: prices_body where
  "prices_short_row =
     \<lparr>header_lines = 2,
      csv_records = [RawRecord [''101'', ''benzina'', ''1.899'', ''true'', ''5/3/2024 8:00:00''],
                     RawRecord [''101'', ''benzina'', ''1.899'', ''true'']]\<rparr>"

definition prices_bad_price :: prices_body where
  "prices_bad_price =
     \<lparr>header_lines = 2,
      csv_records = [RawRecord [''101'', ''benzina'', ''1.899'', ''true'', ''5/3/2024 8:00:00''],
                     RawRecord [''101'', ''gasolio'', ''n.d.'', ''true'', ''5/3/2024 8:00:00'']]\<rparr>"

definition header_line :: string where
  "header_line = ''idImpianto;Gestore;Bandiera;Tipo Impianto;Nome Impianto;Indirizzo;Comune;Provincia;Latitudine;Longitudine''"

definition row_101 :: string where
  "row_101 = ''101;Rossi;Agip;Stradale;Da Mario;Via Roma 1;Milano;MI;45.46;9.19''"

definition row_101_later :: string where
  "row_101_later = ''101;Bianchi;Esso;Autostradale;Da Luigi;Via Po 2;Torino;TO;45.07;7.68''"

definition row_short :: string where
  "row_short = ''102;Verdi;Q8''"


definition stations_one_row :: stations_body where
  "stations_one_row = \<lparr>scan_lines = [header_line, row_101], scan_err = False\<rparr>"

definition stations_duplicate :: stations_body where
  "stations_duplicate = \<lparr>scan_lines = [header_line, row_101, row_101_later], scan_err = False\<rparr>"

definition stations_short_row :: stations_body where
  "stations_short_row = \<lparr>scan_lines = [header_line, row_101, row_short], scan_err = False\<rparr>"

definition station_101 :: Station where
  "station_101 =
     \<lparr>ID = 101, Gestore = ''Rossi'', Bandiera = ''Agip'', Tipo = ''Stradale'', Nome = ''Da Mario'',
      Indirizzo = ''Via Roma 1'', Comune = ''Milano'', Provincia = ''MI'', Lat = ''45.46'',
      Long = ''9.19''\<rparr>"

section \<open>Properties of the cache\<close>

lemma Put_absent: "entries c k = None \<Longrightarrow> Put now k v c = c"
  by (simp add: Put_def)

lemma Put_present:
  "entries c k = Some e \<Longrightarrow>
     Put now k v c = c\<lparr>entries := (entries c)(k \<mapsto> e\<lparr>Records := Records e @ [v]\<rparr>)\<rparr>"
  by (simp add: Put_def)

lemma Put_empty: "entries c = Map.empty \<Longrightarrow> Put now k v c = c"
  by (simp add: Put_absent)

lemma Get_empty: "entries c = Map.empty \<Longrightarrow> Get now k c = ([], False)"
  by (simp add: Get_def)

lemma run_calls_empty:
  "entries c = Map.empty \<Longrightarrow>
     run_calls c calls = (c, replicate (length (filter is_get calls)) ([], False))"
proof (induction calls)
  case Nil
  show ?case by simp
next
  case (Cons call calls)
  show ?case
  proof (cases call)
    case (CallPut now k v)
    with Cons show ?thesis by (simp add: Put_empty)
  next
    case (CallGet now k)
    with Cons show ?thesis by (simp add: Get_empty)
  qed
qed

text \<open>
  C9. A cache made by \<open>NewCache\<close> has an empty map, and the map stays empty under every
  finite sequence of \<open>Put\<close> and \<open>Get\<close> calls: \<open>Put\<close> builds an entry for an unseen key and
  never stores it. Every \<open>Get\<close> of the sequence therefore answers not-found with a nil slice.
\<close>

theorem NewCache_stays_empty:
  "entries (NewCache ttl) = Map.empty \<and>
   entries (fst (run_calls (NewCache ttl) calls)) = Map.empty \<and>
   snd (run_calls (NewCache ttl) calls) = replicate (length (filter is_get calls)) ([], False)"
proof -
  have e: "entries (NewCache ttl) = Map.empty"
    by (simp add: NewCache_def)
  from run_calls_empty [OF e] e show ?thesis by simp
qed

text \<open>
  C1, evaluated on the code. One hour is the TTL that \<open>main\<close> passes. The first \<open>Put\<close> of a
  key leaves no entry behind, so the second \<open>Put\<close> finds none either, and a \<open>Get\<close> one second
  later, well inside the TTL, answers not-found instead of the two records.
\<close>

theorem Put_Put_Get_not_found:
  "entries (Put 1000 ''101-1709625600'' r1 (NewCache 3600000000000)) ''101-1709625600'' = None \<and>
   Get 1000000000 ''101-1709625600''
     (Put 2000 ''101-1709625600'' r2 (Put 1000 ''101-1709625600'' r1 (NewCache 3600000000000)))
   = ([], False)"
  by (simp add: Put_def Get_def NewCache_def)

section \<open>Properties of the station feed\<close>

lemma strings_Split_nonempty: "strings_Split s sep \<noteq> []"
  by (induction s) (auto split: list.splits)

lemma scanLoop_lineno_one: "lineno = 1 \<Longrightarrow> scanLoop lineno ls st = (Inr (fst st), snd st)"
  by (induction ls) simp_all

lemma updateStations_result:
  "updateStations resp =
     (case resp of
        FetchFailed \<Rightarrow> (Inl FailedToFetchStations, [UpdatingStations])
      | Body b \<Rightarrow>
          if scan_err b then (Inl FailedToScanStations, [UpdatingStations])
          else (Inr Map.empty, [UpdatingStations]))"
  by (simp add: updateStations_def scanLoop_lineno_one split: response.splits)

text \<open>
  What the loop body does with a line it is given: a line of 10 or 11 fields with a numeric
  first field is stored under its identifier, whatever the map held there; a line with
  another number of fields is an error.
\<close>

lemma address_of_ten: "length items = 10 \<Longrightarrow> address_of items = Inr (items ! 5)"
  by (simp add: address_of_def)

lemma address_of_eleven: "length items = 11 \<Longrightarrow> address_of items = Inr (items ! 5)"
proof -
  assume n: "length items = 11"
  then have "drop 5 items = items ! 5 # drop 6 items"
    using Cons_nth_drop_Suc [of 5 items] by simp
  with n show ?thesis by (simp add: address_of_def)
qed

lemma stationLine_stores:
  assumes "items = strings_Split line CHR '';''"
      and "length items = 10 \<or> length items = 11"
      and "ParseInt (items ! 0) = Inr i"
  shows "fst (stationLine line (stationMap, lg)) =
           Inr (stationMap(i \<mapsto>
             \<lparr>ID = i, Gestore = items ! 1, Bandiera = items ! 2, Tipo = items ! 3,
              Nome = items ! 4, Indirizzo = items ! 5, Comune = items ! 6,
              Provincia = items ! 7, Lat = items ! 8, Long = items ! 9\<rparr>))"
proof -
  from assms(2) have a: "address_of items = Inr (items ! 5)"
    by (auto simp: address_of_ten address_of_eleven)
  from assms(2) have n: "length items \<noteq> 0" "\<not> length items \<le> 3"
    by auto
  show ?thesis
    unfolding stationLine_def Let_def assms(1) [symmetric]
    using a n assms(3) by simp
qed

lemma stationLine_malformed:
  assumes "items = strings_Split line CHR '';''"
      and "length items \<noteq> 10" and "length items \<noteq> 11"
      and "ParseInt (items ! 0) = Inr i"
      and "stationMap i = None"
  shows "fst (stationLine line (stationMap, lg)) = Inl (MalformedLine (length items) items)"
proof -
  from assms(2,3) have a: "address_of items = Inl (MalformedLine (length items) items)"
    by (simp add: address_of_def)
  have n: "length items \<noteq> 0"
    using strings_Split_nonempty [of line "CHR '';''"] assms(1) by simp
  show ?thesis
    unfolding stationLine_def Let_def assms(1) [symmetric]
    using a n assms(4,5) by simp
qed

lemma ParseInt_101: "ParseInt ''101'' = Inr 101"
  by (simp add: ParseInt_def ParseUint_def digit_val_def maxUint64_def)

lemma Split_row_101:
  "strings_Split row_101 CHR '';'' =
     [''101'', ''Rossi'', ''Agip'', ''Stradale'', ''Da Mario'', ''Via Roma 1'', ''Milano'', ''MI'',
      ''45.46'', ''9.19'']"
  by (simp add: row_101_def)

lemma stationLine_row_101:
  "fst (stationLine row_101 (Map.empty, lg)) = Inr [101 \<mapsto> station_101]"
  using stationLine_stores [OF refl, of row_101 101 Map.empty lg]
  by (simp add: Split_row_101 ParseInt_101 station_101_def)

text \<open>
  C2, evaluated on the code. The feed is a header line and one row of ten fields with the
  numeric identifier 101. The loop skips both lines, since \<open>lineno\<close> is 1 at every turn, and
  the table that comes back has no station 101 in it.
\<close>

theorem updateStations_drops_the_row:
  "fst (updateStations (Body stations_one_row)) = Inr Map.empty"
  by (simp add: updateStations_result stations_one_row_def)

text \<open>
  C5, evaluated on the code. Two rows of ten fields share the identifier 101. Neither is
  stored, so the table does not hold the fields of the later row.
\<close>

theorem updateStations_drops_the_later_duplicate:
  "\<exists>stationMap. fst (updateStations (Body stations_duplicate)) = Inr stationMap \<and>
     stationMap 101 = None"
  by (simp add: updateStations_result stations_duplicate_def)

text \<open>
  C6, evaluated on the code. The third line of the feed has three fields. The line is
  skipped like every other, and the build ends without an error where the field count was
  to abort it.
\<close>

theorem updateStations_accepts_the_short_row:
  "length (strings_Split row_short CHR '';'') = 3 \<and>
   fst (updateStations (Body stations_short_row)) = Inr Map.empty"
  by (simp add: updateStations_result stations_short_row_def row_short_def)






lemma joinRecords_no_stations:
  "list_all (\<lambda>t. lbl_Nome t = [] \<and> lbl_Tipo t = [] \<and> lbl_Comune t = [] \<and>
                 lbl_Provincia t = [] \<and> lbl_Bandiera t = []) calls \<Longrightarrow>
   list_all (\<lambda>t. lbl_Nome t = [] \<and> lbl_Tipo t = [] \<and> lbl_Comune t = [] \<and>
                 lbl_Provincia t = [] \<and> lbl_Bandiera t = []) (joinRecords records Map.empty calls)"
  by (induction records arbitrary: calls) simp_all

text \<open>
  C10. Whenever \<open>updateStations\<close> returns without error the map it returns is empty, for every
  response: \<open>lineno\<close> is 1 at every turn of the loop, so every line takes the branch that
  skips the header. Every lookup of the join then misses, and every call made on the gauge,
  in every turn of the refresh loop, carries empty strings for name, type, municipality,
  province and brand.
\<close>

theorem updateStations_returns_empty_map:
  assumes "fst (updateStations resp) = Inr stationMap"
  shows "stationMap = Map.empty \<and>
         list_all (\<lambda>t. lbl_Nome t = [] \<and> lbl_Tipo t = [] \<and> lbl_Comune t = [] \<and>
                       lbl_Provincia t = [] \<and> lbl_Bandiera t = [])
           (joinRecords records stationMap []) \<and>
         list_all (\<lambda>t. lbl_Nome t = [] \<and> lbl_Tipo t = [] \<and> lbl_Comune t = [] \<and>
                       lbl_Provincia t = [] \<and> lbl_Bandiera t = [])
           (fst (snd (iteration parseFloat timeParse clock prices resp cache)))"
proof -
  from assms have e: "stationMap = Map.empty"
    by (auto simp: updateStations_result split: response.splits if_splits)
  have j: "\<And>rs. list_all (\<lambda>t. lbl_Nome t = [] \<and> lbl_Tipo t = [] \<and> lbl_Comune t = [] \<and>
                       lbl_Provincia t = [] \<and> lbl_Bandiera t = []) (joinRecords rs Map.empty [])"
    by (rule joinRecords_no_stations) simp
  have "list_all (\<lambda>t. lbl_Nome t = [] \<and> lbl_Tipo t = [] \<and> lbl_Comune t = [] \<and>
                       lbl_Provincia t = [] \<and> lbl_Bandiera t = [])
           (fst (snd (iteration parseFloat timeParse clock prices resp cache)))"
    using j
    by (auto simp: iteration_def updateStations_result
             split: prod.splits sum.splits response.splits if_splits)
  with e j show ?thesis by simp
qed

theorem updateStations_returns_empty_map_witness:
  "fst (updateStations (Body stations_one_row)) = Inr Map.empty \<and>
   list_all (\<lambda>t. lbl_Nome t = [] \<and> lbl_Tipo t = [] \<and> lbl_Comune t = [] \<and>
                 lbl_Provincia t = [] \<and> lbl_Bandiera t = [])
     (joinRecords [r1] Map.empty []) \<and>
   list_all (\<lambda>t. lbl_Nome t = [] \<and> lbl_Tipo t = [] \<and> lbl_Comune t = [] \<and>
                 lbl_Provincia t = [] \<and> lbl_Bandiera t = [])
     (fst (snd (iteration parseFloat_tab timeParse_tab (\<lambda>i. 1000) (Body prices_one_row)
                  (Body stations_one_row) (NewCache one_hour))))"
proof -
  have h: "fst (updateStations (Body stations_one_row)) = Inr Map.empty"
    by (simp add: updateStations_result stations_one_row_def)
  from updateStations_returns_empty_map [OF h, of "[r1]" parseFloat_tab timeParse_tab
      "\<lambda>i. 1000" "Body prices_one_row" "NewCache one_hour"] h
  show ?thesis by simp
qed

section \<open>Properties of the price feed\<close>

lemma readRecords_fails:
  assumes "raw \<in> set raws"
      and "isl (csv_Read 5 raw) \<or>
           isl (parseRecord parseFloat timeParse (projr (csv_Read 5 raw)))"
  shows "isl (fst (readRecords parseFloat timeParse clock raws records cache))"
  using assms
proof (induction raws arbitrary: records cache)
  case Nil
  then show ?case by simp
next
  case (Cons a raws)
  show ?case
  proof (cases "csv_Read 5 a")
    case (Inl e)
    then show ?thesis by simp
  next
    case (Inr items)
    show ?thesis
    proof (cases "parseRecord parseFloat timeParse items")
      case (Inl e)
      with Inr show ?thesis by simp
    next
      case r: (Inr r)
      with Inr Cons.prems have "raw \<in> set raws"
        by auto
      from Cons.IH [OF this Cons.prems(2)] Inr r show ?thesis by simp
    qed
  qed
qed

lemma parseRecord_fails:
  assumes "length items \<noteq> 5 \<or> isl (ParseInt (items ! 0)) \<or> parseFloat (items ! 2) = None \<or>
           ParseBool (items ! 3) = None \<or> timeParse (items ! 4) = None"
  shows "isl (parseRecord parseFloat timeParse items)"
  using assms
  by (auto simp: parseRecord_def split: sum.splits option.splits)

text \<open>
  C3. If the price feed holds a row whose field count is not 5, or whose station identifier
  is not a base-10 integer, or whose price, self-service flag or timestamp does not parse,
  then \<open>refreshRecords\<close> returns an error, wherever the row stands in the feed. An error
  result carries no records: every error return of the function is \<open>return nil, err\<close>.
\<close>

theorem refreshRecords_fails_on_bad_row:
  assumes "RawRecord items \<in> set (csv_records b)"
      and "length items \<noteq> 5 \<or> isl (ParseInt (items ! 0)) \<or> parseFloat (items ! 2) = None \<or>
           ParseBool (items ! 3) = None \<or> timeParse (items ! 4) = None"
  shows "\<exists>e. fst (refreshRecords parseFloat timeParse clock (Body b) cache) = Inl e"
proof -
  have "isl (csv_Read 5 (RawRecord items)) \<or>
        isl (parseRecord parseFloat timeParse (projr (csv_Read 5 (RawRecord items))))"
    using assms(2) by (simp add: parseRecord_fails)
  from readRecords_fails [OF assms(1) this]
  have "isl (fst (refreshRecords parseFloat timeParse clock (Body b) cache))"
    by (simp add: refreshRecords_def)
  then show ?thesis by (auto simp: isl_def)
qed

theorem refreshRecords_fails_on_bad_row_witness:
  "RawRecord [''101'', ''benzina'', ''1.899'', ''true''] \<in> set (csv_records prices_short_row) \<and>
   length [''101'', ''benzina'', ''1.899'', ''true''] \<noteq> 5 \<and>
   (\<exists>e. fst (refreshRecords parseFloat_tab timeParse_tab (\<lambda>i. 1000) (Body prices_short_row)
              (NewCache one_hour)) = Inl e) \<and>
   RawRecord [''101'', ''gasolio'', ''n.d.'', ''true'', ''5/3/2024 8:00:00'']
     \<in> set (csv_records prices_bad_price) \<and>
   parseFloat_tab ''n.d.'' = None \<and>
   (\<exists>e. fst (refreshRecords parseFloat_tab timeParse_tab (\<lambda>i. 1000) (Body prices_bad_price)
              (NewCache one_hour)) = Inl e)"
proof -
  have m1: "RawRecord [''101'', ''benzina'', ''1.899'', ''true''] \<in> set (csv_records prices_short_row)"
    by (simp add: prices_short_row_def)
  have m2: "RawRecord [''101'', ''gasolio'', ''n.d.'', ''true'', ''5/3/2024 8:00:00'']
              \<in> set (csv_records prices_bad_price)"
    by (simp add: prices_bad_price_def)
  have p: "parseFloat_tab ''n.d.'' = None"
    by (simp add: parseFloat_tab_def)
  from refreshRecords_fails_on_bad_row [OF m1, of parseFloat_tab timeParse_tab "\<lambda>i. 1000" "NewCache one_hour"]
       refreshRecords_fails_on_bad_row [OF m2, of parseFloat_tab timeParse_tab "\<lambda>i. 1000" "NewCache one_hour"]
       m1 m2 p
  show ?thesis by simp
qed

lemma readRecords_cache_empty:
  "entries cache = Map.empty \<Longrightarrow>
     snd (readRecords parseFloat timeParse clock raws records cache) = cache"
  by (induction raws arbitrary: records) (simp_all add: Put_empty split: sum.splits)

lemma refreshRecords_cache_empty:
  "entries cache = Map.empty \<Longrightarrow>
     snd (refreshRecords parseFloat timeParse clock resp cache) = cache"
  by (simp add: refreshRecords_def readRecords_cache_empty split: response.splits)

lemma parseRecord_row:
  "parseRecord parseFloat_tab timeParse_tab
     [''101'', ''benzina'', ''1.899'', ''true'', ''5/3/2024 8:00:00''] = Inr r1"
  by (simp add: parseRecord_def ParseInt_101 parseFloat_tab_def ParseBool_def
        timeParse_tab_def r1_def)

lemma cacheKey_r1: "cacheKey r1 = ''101-1709625600''"
  by (simp add: cacheKey_def r1_def FormatInt_def Unix_def)

text \<open>
  C4, evaluated on the code. The price feed has its two header lines and the row
  \<open>101;benzina;1.899;true;5/3/2024 8:00:00\<close>. The row is parsed and returned, and \<open>Put\<close> is
  called with the key \<open>101-1709625600\<close>, but the cache is afterwards what it was, and a
  \<open>Get\<close> of that key answers not-found at any time. When the fetch of the station feed then
  fails, no call is made on the gauge and the cache is still empty.
\<close>

theorem refreshRecords_registers_nothing:
  "refreshRecords parseFloat_tab timeParse_tab clock (Body prices_one_row) (NewCache one_hour)
     = (Inr [r1], NewCache one_hour) \<and>
   cacheKey r1 = ''101-1709625600'' \<and>
   Get now (cacheKey r1) (NewCache one_hour) = ([], False) \<and>
   iteration parseFloat_tab timeParse_tab clock (Body prices_one_row) FetchFailed
       (NewCache one_hour)
     = (NewCache one_hour, [],
        [UpdatingStations, LogFailedStations FailedToFetchStations, Sleeping])"
proof -
  have e: "entries (NewCache one_hour) = Map.empty"
    by (simp add: NewCache_def)
  have r: "refreshRecords parseFloat_tab timeParse_tab clock (Body prices_one_row)
             (NewCache one_hour) = (Inr [r1], NewCache one_hour)"
    by (simp add: refreshRecords_def prices_one_row_def parseRecord_row Put_empty [OF e])
  have g: "Get now (cacheKey r1) (NewCache one_hour) = ([], False)"
    by (simp add: Get_empty [OF e])
  from r g cacheKey_r1 show ?thesis
    by (simp add: iteration_def updateStations_result)
qed

section \<open>Properties of the join\<close>







end
